theory Spec2Isabelle
  imports Complex_Main "HOL-Library.Char_ord" "HOL-Library.List_Lexorder"
begin

section \<open>Python values\<close>

text \<open>
  A Python \<open>str\<close> is modelled as a \<open>string\<close>, one \<open>char\<close> per code point, for the
  code points below 256. Strings are compared as Python compares them: lexicographically
  by code point (the order of \<open>Char_ord\<close> and \<open>List_Lexorder\<close>).
  An exception is a value of \<open>error\<close>, named after the Python class that is raised,
  with the message it carries; \<open>PandasError\<close> stands for an exception raised inside
  pandas whose class the model does not determine.
\<close>

datatype error =
    ValueError string
  | FileNotFoundError string
  | KeyError string
  | AttributeError string
  | TypeError string
  | OSError string
  | PandasError string

type_synonym 'a result = "error + 'a"

text \<open>\<open>str.lower\<close> on the code points below 256: A-Z and the Latin-1 capitals.\<close>

definition lower_char :: "char \<Rightarrow> char" where
  "lower_char c =
     (let n = (of_char c :: nat)
      in if (65 \<le> n \<and> n \<le> 90) \<or> (192 \<le> n \<and> n \<le> 222 \<and> n \<noteq> 215)
         then char_of (n + 32) else c)"

definition lower :: "string \<Rightarrow> string" where
  "lower s = map lower_char s"

text \<open>\<open>s.startswith(p)\<close> and the slice \<open>s[-5:]\<close> (the whole string when it is shorter).\<close>

definition startswith :: "string \<Rightarrow> string \<Rightarrow> bool" where
  "startswith s p = (take (length p) s = p)"

definition last5 :: "string \<Rightarrow> string" where
  "last5 s = drop (length s - 5) s"

text \<open>
  \<open>int(s)\<close> in base 10: surrounding whitespace is stripped, one sign is allowed, the
  digits may be separated by single underscores; anything else raises ValueError, here
  \<open>None\<close>. (It is only applied to slices of at most five characters, far below the
  interpreter's limit on the number of digits.)
\<close>

definition is_space :: "char \<Rightarrow> bool" where
  "is_space c = ((of_char c :: nat) \<in> set [9, 10, 11, 12, 13, 28, 29, 30, 31, 32, 133, 160])"

definition strip :: "string \<Rightarrow> string" where
  "strip s = rev (dropWhile is_space (rev (dropWhile is_space s)))"

definition digit_value :: "char \<Rightarrow> nat option" where
  "digit_value c =
     (let n = (of_char c :: nat) in if 48 \<le> n \<and> n \<le> 57 then Some (n - 48) else None)"

fun digits_value :: "nat \<Rightarrow> string \<Rightarrow> nat option" where
  "digits_value acc [] = Some acc"
| "digits_value acc [c] =
     (case digit_value c of None \<Rightarrow> None | Some d \<Rightarrow> Some (10 * acc + d))"
| "digits_value acc (c # c' # cs) =
     (if c = CHR ''_''
      then (case digit_value c' of None \<Rightarrow> None
            | Some d \<Rightarrow> digits_value (10 * acc + d) cs)
      else (case digit_value c of None \<Rightarrow> None
            | Some d \<Rightarrow> digits_value (10 * acc + d) (c' # cs)))"

definition unsigned_value :: "string \<Rightarrow> nat option" where
  "unsigned_value s =
     (case s of [] \<Rightarrow> None
      | c # cs \<Rightarrow> (case digit_value c of None \<Rightarrow> None | Some d \<Rightarrow> digits_value d cs))"

definition py_int :: "string \<Rightarrow> int option" where
  "py_int s =
     (case strip s of
        [] \<Rightarrow> None
      | c # cs \<Rightarrow>
          if c = CHR ''-'' then map_option (\<lambda>n. - int n) (unsigned_value cs)
          else if c = CHR ''+'' then map_option int (unsigned_value cs)
          else map_option int (unsigned_value (c # cs)))"

text \<open>The format specification \<open>05d\<close>: decimal digits, zero-padded to width 5, the sign
  counted in the width.\<close>

fun decimal :: "nat \<Rightarrow> string" where
  "decimal n =
     (if n < 10 then [''0123456789'' ! n]
      else decimal (n div 10) @ [''0123456789'' ! (n mod 10)])"

declare decimal.simps [simp del]

definition zfill :: "nat \<Rightarrow> string \<Rightarrow> string" where
  "zfill w s = replicate (w - length s) (CHR ''0'') @ s"

definition format_05d :: "int \<Rightarrow> string" where
  "format_05d n =
     (if n < 0 then CHR ''-'' # zfill 4 (decimal (nat (- n))) else zfill 5 (decimal (nat n)))"

section \<open>Reading and writing csv files with pandas\<close>

text \<open>
  A csv file holds text. \<open>read_csv\<close>, called without a dtype as \<open>update_nuts_mapping\<close>
  and \<open>save_metadata\<close> call it, decides the type of a column from the text of all its
  cells: integers where every cell is an integer of 64 bits, floats where every cell is
  a number or one of the texts that stand for a missing value, booleans where every cell
  is a boolean, and strings otherwise, the missing values being NaN. Only in a column of
  strings is a cell the Python string of its text. A column without cells is a column of
  strings.
\<close>

definition NA_VALUES :: "string list" where
  "NA_VALUES =
     [[], ''#N/A'', ''#N/A N/A'', ''#NA'', ''-1.#IND'', ''-1.#QNAN'', ''-NaN'', ''-nan'',
      ''1.#IND'', ''1.#QNAN'', ''<NA>'', ''N/A'', ''NA'', ''NULL'', ''NaN'', ''None'',
      ''n/a'', ''nan'', ''null'']"

definition is_na :: "string \<Rightarrow> bool" where
  "is_na c = (c \<in> set NA_VALUES)"

definition is_blank :: "char \<Rightarrow> bool" where
  "is_blank c = (c \<in> set [CHR '' '', CHR 0x09, CHR 0x0A, CHR 0x0B, CHR 0x0C, CHR 0x0D])"

definition is_digit :: "char \<Rightarrow> bool" where
  "is_digit c = (c \<in> set ''0123456789'')"

definition is_sign :: "char \<Rightarrow> bool" where
  "is_sign c = (c \<in> set ''+-'')"

text \<open>The text of a number: blanks around it, one sign, then digits; for a float also a
  decimal point and an exponent, or \<open>inf\<close> and \<open>infinity\<close> in any case.\<close>

definition token :: "string \<Rightarrow> string" where
  "token c = rev (dropWhile is_blank (rev (dropWhile is_blank c)))"

definition unsigned :: "string \<Rightarrow> string" where
  "unsigned s = (case s of [] \<Rightarrow> [] | x # xs \<Rightarrow> if is_sign x then xs else s)"

definition all_digits :: "string \<Rightarrow> bool" where
  "all_digits s = (s \<noteq> [] \<and> list_all is_digit s)"

definition int_literal :: "string \<Rightarrow> bool" where
  "int_literal c = all_digits (unsigned (token c))"

definition digits_nat :: "string \<Rightarrow> nat" where
  "digits_nat s = foldl (\<lambda>a d. 10 * a + (of_char d - 48)) 0 s"

definition is_negative :: "string \<Rightarrow> bool" where
  "is_negative c = (case token c of [] \<Rightarrow> False | x # xs \<Rightarrow> x = CHR ''-'')"

definition int_value :: "string \<Rightarrow> int" where
  "int_value c =
     (if is_negative c then - int (digits_nat (unsigned (token c)))
      else int (digits_nat (unsigned (token c))))"

definition int64_literal :: "string \<Rightarrow> bool" where
  "int64_literal c =
     (int_literal c \<and> - 9223372036854775808 \<le> int_value c \<and> int_value c \<le> 9223372036854775807)"

definition exponent :: "string \<Rightarrow> bool" where
  "exponent r =
     (case r of [] \<Rightarrow> True
      | e # t \<Rightarrow> e \<in> set ''eE'' \<and> all_digits (unsigned t))"

definition float_literal :: "string \<Rightarrow> bool" where
  "float_literal c =
     (let s = unsigned (token c);
          r = dropWhile is_digit s
      in if lower s \<in> set [''inf'', ''infinity''] then True
         else case r of
                [] \<Rightarrow> s \<noteq> []
              | d # t \<Rightarrow>
                  if d = CHR ''.''
                  then \<not> (takeWhile is_digit s = [] \<and> takeWhile is_digit t = []) \<and>
                       exponent (dropWhile is_digit t)
                  else takeWhile is_digit s \<noteq> [] \<and> exponent r)"

definition bool_literal :: "string \<Rightarrow> bool" where
  "bool_literal c = (c \<in> set [''True'', ''TRUE'', ''true'', ''False'', ''FALSE'', ''false''])"

text \<open>The type of a column. \<open>ObjectBool\<close> is a column of booleans and NaN. Integers
  that do not fit 64 bits are taken as floats here.\<close>

datatype dtype = Int64 | Float64 | Bool | ObjectBool | Object

definition infer_dtype :: "string list \<Rightarrow> dtype" where
  "infer_dtype cells =
     (if cells = [] then Object
      else if list_all int64_literal cells then Int64
      else if list_all (\<lambda>c. is_na c \<or> int_literal c \<or> float_literal c) cells then Float64
      else if list_all bool_literal cells then Bool
      else if list_all (\<lambda>c. is_na c \<or> bool_literal c) cells then ObjectBool
      else Object)"

text \<open>The cells of a column that are Python strings after \<open>read_csv\<close>: a test
  \<open>x in column.values\<close> for a string \<open>x\<close> is a test on these.\<close>

definition str_cells :: "string list \<Rightarrow> string list" where
  "str_cells cells = (if infer_dtype cells = Object then filter (\<lambda>c. \<not> is_na c) cells else [])"

text \<open>
  The text that \<open>to_csv\<close> writes for the cells of a column that \<open>read_csv\<close> has read:
  an integer in its decimal digits, an integer in a column of floats with \<open>.0\<close>, a
  boolean as \<open>True\<close> or \<open>False\<close>, NaN as the empty text, a string as it is. (The digits
  of the other floats are not modelled: they keep their text.)
\<close>

definition int_text :: "int \<Rightarrow> string" where
  "int_text n = (if n < 0 then CHR ''-'' # decimal (nat (- n)) else decimal (nat n))"

definition float_text :: "string \<Rightarrow> string" where
  "float_text c =
     (if is_na c then []
      else if int_literal c \<and> digits_nat (unsigned (token c)) < 10000000000000000
      then (if is_negative c then ''-'' else []) @ decimal (digits_nat (unsigned (token c))) @ ''.0''
      else c)"

definition bool_text :: "string \<Rightarrow> string" where
  "bool_text c = (if c \<in> set [''True'', ''TRUE'', ''true''] then ''True'' else ''False'')"

definition to_csv_text :: "string list \<Rightarrow> string list" where
  "to_csv_text cells =
     (case infer_dtype cells of
        Int64 \<Rightarrow> map (\<lambda>c. int_text (int_value c)) cells
      | Float64 \<Rightarrow> map float_text cells
      | Bool \<Rightarrow> map bool_text cells
      | ObjectBool \<Rightarrow> map (\<lambda>c. if is_na c then [] else bool_text c) cells
      | Object \<Rightarrow> map (\<lambda>c. if is_na c then [] else c) cells)"

text \<open>A text that is a Python string after \<open>read_csv\<close> in whatever column it stands: no
  missing value, no number, no boolean.\<close>

definition plain :: "string \<Rightarrow> bool" where
  "plain c = (\<not> is_na c \<and> \<not> int_literal c \<and> \<not> float_literal c \<and> \<not> bool_literal c)"

section \<open>The files under the output directory\<close>

text \<open>
  A path is the list of its components below \<open>OUTPUT_PATH\<close>. The state of the program
  is the content of the files it reads and writes:
  \<^item> the folder \<open>metadata\<close>, which no function creates, with \<open>nuts_mapping.csv\<close>,
    \<open>nuts_mapping.json\<close> and \<open>metadata1h.csv\<close>, each absent or a list of rows;
  \<^item> the data file and the metadata file of the stations, by path: the frame and the
    row that were written.
  The rows of \<open>nuts_mapping.csv\<close> are the texts of their cells, and so is the gauge id
  of a row of \<open>metadata1h.csv\<close>; \<open>read_csv\<close> decides what they are read as. The
  other cells of \<open>metadata1h.csv\<close>, the data files and the metadata files of the
  stations hold the values that were written, and the text of these in the file is not
  modelled. The json file holds the rows of the csv file; a provider id that \<open>read_csv\<close>
  has read as a number is written to it as a number, which the rows do not tell from the
  string of the same digits.
\<close>

type_synonym path = "string list"

record mapping_entry =
  provider_id :: string
  nuts_id :: string

text \<open>A value in a frame. \<open>PyDate\<close> is the string that \<open>to_csv\<close> has written for a
  timestamp, as \<open>read_csv\<close> returns it.\<close>

datatype cell = PyNone | PyStr string | PyFloat rat | PyBool bool | PyDate "string option" int

record metadata_row =
  col_gauge_id :: string
  col_provider_id :: cell
  col_gauge_name :: cell
  col_water_body_name :: cell
  col_federal_state :: cell
  col_lon :: cell
  col_lat :: cell
  col_easting :: cell
  col_northing :: cell
  col_elev_metadata :: cell
  col_area_metadata :: cell
  col_part_of_camelsp :: cell

text \<open>
  A data frame has an index and labelled columns. A column of timestamps carries its
  time zone (absent for naive timestamps) and the timestamps in nanoseconds since the
  epoch; any other column is a list of cells.
\<close>

datatype column = Datetimes "string option" "int list" | Values "cell list"

datatype index = RangeIndex nat | DatetimeIndex "string option" "int list" | Index "cell list"

record frame =
  index :: index
  columns :: "(string \<times> column) list"

record metadata_folder =
  nuts_mapping_csv :: "mapping_entry list option"
  nuts_mapping_json :: "mapping_entry list option"
  metadata1h_csv :: "metadata_row list option"

record fs =
  metadata_dir :: "metadata_folder option"
  data_files :: "path \<rightharpoonup> frame"
  metadata_files :: "path \<rightharpoonup> metadata_row"

section \<open>util.py\<close>

definition INPUT_DEFAULT_PATHS :: "(string \<times> string) list" where
  "INPUT_DEFAULT_PATHS =
     [(''DE1'', ''BW_Baden_Wuerttemberg''),
      (''DE2'', ''BY_Bayern''),
      (''DE4'', ''BR_Brandenburg''),
      (''DE7'', ''HE_Hessen''),
      (''DE8'', ''MP_Mecklenburg_Vorpommern''),
      (''DE9'', ''NiS_Niedersachsen''),
      (''DEA'', ''NRW_Nordrhein_Westfalen''),
      (''DEB'', ''RLP_Rheinland_Pfalz''),
      (''DEC'', ''SL_Saarland''),
      (''DED'', ''SN_Sachsen''),
      (''DEE'', ''SA_Sachsen_Anhalt''),
      (''DEF'', ''SH_Schleswig_Holstein''),
      (''DEG'', ''TH_Thueringen'')]"

definition region_codes :: "string list" where
  "region_codes = map fst INPUT_DEFAULT_PATHS"

text \<open>\<open>get_output_path\<close>: the output directory itself, the folder of a Bundesland, or
  the folder of a station, whose identifier must have 8 characters.\<close>

definition get_output_path :: "string option \<Rightarrow> path result" where
  "get_output_path camels_id =
     (case camels_id of
        None \<Rightarrow> Inr []
      | Some c \<Rightarrow>
          if c \<in> set region_codes then Inr [c]
          else if length c = 8 then Inr [take 3 c, c]
          else Inl (ValueError (''Given camels_id '' @ [CHR 0x27] @ c @ [CHR 0x27] @ '' not recognized.'')))"

definition read_nuts_mapping_csv :: "fs \<Rightarrow> mapping_entry list option" where
  "read_nuts_mapping_csv s =
     (case metadata_dir s of None \<Rightarrow> None | Some d \<Rightarrow> nuts_mapping_csv d)"

definition read_nuts_mapping_json :: "fs \<Rightarrow> mapping_entry list option" where
  "read_nuts_mapping_json s =
     (case metadata_dir s of None \<Rightarrow> None | Some d \<Rightarrow> nuts_mapping_json d)"

definition write_nuts_mapping :: "mapping_entry list \<Rightarrow> mapping_entry list \<Rightarrow> fs \<Rightarrow> fs" where
  "write_nuts_mapping csv json s =
     (case metadata_dir s of
        None \<Rightarrow> s
      | Some d \<Rightarrow>
          s\<lparr>metadata_dir := Some (d\<lparr>nuts_mapping_csv := Some csv, nuts_mapping_json := Some json\<rparr>)\<rparr>)"

text \<open>Lines 110 to 115 of \<open>update_nuts_mapping\<close>: the identifier of the new entry, from
  the rows of the mapping whose \<open>nuts_id\<close> starts with the region code.\<close>

definition generate_nuts_id :: "string \<Rightarrow> mapping_entry list \<Rightarrow> string result" where
  "generate_nuts_id bl bl_mapping =
     (case bl_mapping of
        [] \<Rightarrow> Inr (bl @ ''1000'')
      | e # es \<Rightarrow>
          (let last_nuts_id = fold max (map nuts_id es) (nuts_id e)
           in case py_int (last5 last_nuts_id) of
                None \<Rightarrow>
                  Inl (ValueError (''invalid literal for int() with base 10: '' @
                                   [CHR 0x27] @ last5 last_nuts_id @ [CHR 0x27]))
              | Some n \<Rightarrow> Inr (bl @ format_05d (n + 10))))"

text \<open>
  Line 104, \<open>mapping[mapping.nuts_id.str.startswith(bl)]\<close>: the accessor \<open>str\<close> exists
  only on a column of strings, and a mask with NaN in it, from a missing nuts id, selects
  nothing but raises.
\<close>

definition rows_startswith :: "mapping_entry list \<Rightarrow> string \<Rightarrow> mapping_entry list result" where
  "rows_startswith mapping bl =
     (if infer_dtype (map nuts_id mapping) \<noteq> Object
      then Inl (AttributeError ''Can only use .str accessor with string values!'')
      else if list_ex is_na (map nuts_id mapping)
      then Inl (ValueError ''Cannot mask with non-boolean array containing NA / NaN values'')
      else Inr (filter (\<lambda>e. startswith (nuts_id e) bl) mapping))"

text \<open>The rows of the mapping as they are written again: the provider ids in the text of
  what they were read as.\<close>

definition reread :: "mapping_entry list \<Rightarrow> mapping_entry list" where
  "reread mapping =
     map (\<lambda>(c, e). e\<lparr>provider_id := c\<rparr>) (zip (to_csv_text (map provider_id mapping)) mapping)"

text \<open>
  \<open>update_nuts_mapping\<close> returns its result and the files as it leaves them. The table
  is read with \<open>read_csv\<close>; the provider id is looked for among the provider ids that are
  strings then. The new table is the old one with the new row, sorted by \<open>nuts_id\<close>; it
  is written to the csv file, and once more sorted (a stable sort) to the json file.
  Where two rows have the same \<open>nuts_id\<close> the model keeps them in their order in the
  table.
\<close>

definition update_nuts_mapping :: "string \<Rightarrow> string \<Rightarrow> fs \<Rightarrow> string result \<times> fs" where
  "update_nuts_mapping p bl s =
     (if bl \<notin> set region_codes then (Inl (ValueError (bl @ '' is not a valid NUTS ID.'')), s)
      else case read_nuts_mapping_csv s of
        None \<Rightarrow> (Inl (FileNotFoundError ''nuts_mapping.csv''), s)
      | Some mapping \<Rightarrow>
          (case rows_startswith mapping bl of
             Inl e \<Rightarrow> (Inl e, s)
           | Inr bl_mapping \<Rightarrow>
               if p \<in> set (str_cells (map provider_id mapping))
               then (Inl (ValueError (''provider_id '' @ p @ '' is already in the mapping'')), s)
               else case generate_nuts_id bl bl_mapping of
                 Inl e \<Rightarrow> (Inl e, s)
               | Inr new_nuts_id \<Rightarrow>
                   (let new_entry = \<lparr>provider_id = p, nuts_id = new_nuts_id\<rparr>;
                        updated_mapping = sort_key nuts_id (reread mapping @ [new_entry])
                    in (Inr new_nuts_id,
                        write_nuts_mapping updated_mapping
                          (sort_key nuts_id updated_mapping) s))))"

text \<open>\<open>get_nuts_mapping\<close> returns the list of records, a data frame of them, or, when
  the format is none of the four it knows, nothing: the function ends without a
  \<open>return\<close>.\<close>

datatype mapping_value = MappingRecords "mapping_entry list" | MappingFrame "mapping_entry list"

definition get_nuts_mapping :: "string \<Rightarrow> fs \<Rightarrow> mapping_value option result" where
  "get_nuts_mapping format s =
     (case read_nuts_mapping_json s of
        None \<Rightarrow>
          Inl (FileNotFoundError (''Can'' @ [CHR 0x27] @
                 ''t find the nuts_mapping at metadata/nuts_mapping.json, returning empty mapping.''))
      | Some mapping \<Rightarrow>
          if lower format = ''json'' then Inr (Some (MappingRecords mapping))
          else if lower format \<in> set [''csv'', ''df'', ''dataframe'']
          then Inr (Some (MappingFrame mapping))
          else Inr None)"

section \<open>station.py\<close>

subsection \<open>Operations of pandas on a frame\<close>

definition index_length :: "index \<Rightarrow> nat" where
  "index_length i =
     (case i of RangeIndex n \<Rightarrow> n | DatetimeIndex tz ts \<Rightarrow> length ts | Index vs \<Rightarrow> length vs)"

definition labels :: "frame \<Rightarrow> string list" where
  "labels d = map fst (columns d)"

text \<open>\<open>data[c] = None\<close>, done only where the frame has no column \<open>c\<close>.\<close>

definition assign_none :: "string \<Rightarrow> frame \<Rightarrow> frame" where
  "assign_none c d =
     d\<lparr>columns := columns d @ [(c, Values (replicate (index_length (index d)) PyNone))]\<rparr>"

text \<open>\<open>data[[l1, l2, ...]]\<close>: the columns of these labels in this order, or KeyError
  where a label is missing. (The labels of a frame are taken to be distinct: of several
  columns with one label the first stands for all.)\<close>

fun lookup_columns :: "(string \<times> column) list \<Rightarrow> string list \<Rightarrow> (string \<times> column) list option" where
  "lookup_columns cols [] = Some []"
| "lookup_columns cols (l # ls) =
     (case map_of cols l of
        None \<Rightarrow> None
      | Some c \<Rightarrow> map_option ((#) (l, c)) (lookup_columns cols ls))"

definition select_columns :: "string list \<Rightarrow> frame \<Rightarrow> frame result" where
  "select_columns ls d =
     (case lookup_columns (columns d) ls of
        None \<Rightarrow> Inl (KeyError (''['' @ concat (map (\<lambda>l. [CHR 0x27] @ l @ [CHR 0x27])
                        (filter (\<lambda>l. l \<notin> set (labels d)) ls)) @ ''] not in index''))
      | Some cols \<Rightarrow> Inr (d\<lparr>columns := cols\<rparr>))"

definition index_of_column :: "column \<Rightarrow> index" where
  "index_of_column c = (case c of Datetimes tz ts \<Rightarrow> DatetimeIndex tz ts | Values vs \<Rightarrow> Index vs)"

definition set_index :: "string \<Rightarrow> frame \<Rightarrow> frame result" where
  "set_index l d =
     (case map_of (columns d) l of
        None \<Rightarrow> Inl (KeyError (''None of ['' @ [CHR 0x27] @ l @ [CHR 0x27] @ ''] are in the columns''))
      | Some c \<Rightarrow>
          Inr \<lparr>index = index_of_column c, columns = filter (\<lambda>kc. fst kc \<noteq> l) (columns d)\<rparr>)"

text \<open>One hour, in nanoseconds, and the test that every step of the index is one hour
  (\<open>diff().iloc[1:] == Timedelta("1H")\<close>, for all).\<close>

definition one_hour :: int where
  "one_hour = 3600000000000"

fun hourly :: "int list \<Rightarrow> bool" where
  "hourly (a # b # ts) = (b - a = one_hour \<and> hourly (b # ts))"
| "hourly ts = True"

definition str_tz :: "string option \<Rightarrow> string" where
  "str_tz tz = (case tz of None \<Rightarrow> ''None'' | Some z \<Rightarrow> z)"

subsection \<open>The class Station1h\<close>

text \<open>
  A station object. Its attributes \<open>name\<close>, \<open>provider_id\<close>, \<open>water_body_name\<close>,
  \<open>bl\<close>, \<open>lat\<close>, \<open>lon\<close>, \<open>northing\<close>, \<open>easting\<close>, \<open>elevation\<close> and \<open>area\<close> are
  the fields of \<open>metadata\<close>, or None where it is None.
\<close>

record station =
  gauge_id :: string
  output_path :: path
  data_path :: "path option"
  metadata :: "metadata_row option"

text \<open>
  Lines 29 to 35 of the constructor, on the rows of the mapping: the identifier is looked
  up among the provider ids first, then among the nuts ids. \<open>loc\<close> gives the value of the
  one row with this provider id, and a Series where there are several. A frame made from
  an empty list of records has no columns, so that its attribute \<open>provider_id\<close> does
  not exist.
\<close>

datatype located = Scalar string | Series "string list"

definition not_in_mapping :: string where
  "not_in_mapping =
     '' is neither a provider_id nor a CAMELS-DE NUTSID. If it is a provider_id that you want to include in the dataset, please add it to the mapping first with get_nuts_id_from_provider_id(add_missing=True).''"

definition dispatch :: "mapping_entry list \<Rightarrow> string \<Rightarrow> located result" where
  "dispatch mapping g =
     (if mapping = []
      then Inl (AttributeError ([CHR 0x27] @ ''DataFrame'' @ [CHR 0x27] @
                  '' object has no attribute '' @ [CHR 0x27] @ ''provider_id'' @ [CHR 0x27]))
      else if g \<in> set (map provider_id mapping)
      then (case map nuts_id (filter (\<lambda>e. provider_id e = g) mapping) of
              [n] \<Rightarrow> Inr (Scalar n)
            | ns \<Rightarrow> Inr (Series ns))
      else if g \<in> set (map nuts_id mapping) then Inr (Scalar g)
      else Inl (ValueError (g @ not_in_mapping)))"

definition data_file :: "path \<Rightarrow> string \<Rightarrow> path" where
  "data_file out g = out @ [g @ ''_data.csv'']"

definition meta_file :: "path \<Rightarrow> string \<Rightarrow> path" where
  "meta_file out g = out @ [g @ ''_metadata.csv'']"

definition has_metadata :: "station \<Rightarrow> fs \<Rightarrow> bool" where
  "has_metadata self s = (metadata_files s (meta_file (output_path self) (gauge_id self)) \<noteq> None)"

definition get_metadata :: "station \<Rightarrow> fs \<Rightarrow> metadata_row result" where
  "get_metadata self s =
     (case metadata_files s (meta_file (output_path self) (gauge_id self)) of
        None \<Rightarrow> Inl (FileNotFoundError (''No metadata found for station '' @ gauge_id self))
      | Some row \<Rightarrow> Inr row)"

text \<open>The constructor. A Series cannot be hashed, so \<open>get_output_path\<close> raises TypeError
  on it. The data path is set once, here, from the files as they are now.\<close>

definition Station1h :: "string \<Rightarrow> fs \<Rightarrow> station result" where
  "Station1h gauge_id0 s =
     (case get_nuts_mapping ''csv'' s of
        Inl e \<Rightarrow> Inl e
      | Inr None \<Rightarrow>
          Inl (AttributeError ([CHR 0x27] @ ''NoneType'' @ [CHR 0x27] @
                 '' object has no attribute '' @ [CHR 0x27] @ ''provider_id'' @ [CHR 0x27]))
      | Inr (Some (MappingRecords m)) \<Rightarrow>
          Inl (AttributeError ([CHR 0x27] @ ''list'' @ [CHR 0x27] @
                 '' object has no attribute '' @ [CHR 0x27] @ ''provider_id'' @ [CHR 0x27]))
      | Inr (Some (MappingFrame mapping)) \<Rightarrow>
          (case dispatch mapping gauge_id0 of
             Inl e \<Rightarrow> Inl e
           | Inr (Series ns) \<Rightarrow>
               Inl (TypeError (''unhashable type: '' @ [CHR 0x27] @ ''Series'' @ [CHR 0x27]))
           | Inr (Scalar g) \<Rightarrow>
               (case get_output_path (Some g) of
                  Inl e \<Rightarrow> Inl e
                | Inr out \<Rightarrow>
                    (let self = \<lparr>gauge_id = g,
                                 output_path = out,
                                 data_path = (if data_files s (data_file out g) \<noteq> None
                                              then Some (data_file out g) else None),
                                 metadata = None\<rparr>
                     in if has_metadata self s
                        then (case get_metadata self s of
                                Inl e \<Rightarrow> Inl e
                              | Inr meta \<Rightarrow> Inr (self\<lparr>metadata := Some meta\<rparr>))
                        else Inr self))))"

text \<open>
  The four checks of \<open>save_data\<close> on the index, in the order of the source: no
  timestamp twice, increasing, one hour from each to the next, and the time zone UTC. On
  an index without timestamps the test for duplicates is the same; the tests that follow
  need timestamps, and
  pandas or one of the checks raises there (at the latest the attribute \<open>tz\<close>, which
  only an index of timestamps has): the model gives PandasError for all of these.
\<close>

definition check_index :: "string \<Rightarrow> index \<Rightarrow> unit result" where
  "check_index g i =
     (case i of
        DatetimeIndex tz ts \<Rightarrow>
          if \<not> distinct ts then Inl (ValueError (g @ '': Data contains duplicated dates.''))
          else if \<not> sorted ts then Inl (ValueError (g @ '': Data is not sorted by date.''))
          else if \<not> hourly ts
          then Inl (ValueError (g @ '': Not all dates are in hourly resolution.''))
          else if str_tz tz \<noteq> ''UTC''
          then Inl (ValueError (g @ '': Data is not in UTC+0 or it misses the timezone information.''))
          else Inr ()
      | Index vs \<Rightarrow>
          if \<not> distinct vs then Inl (ValueError (g @ '': Data contains duplicated dates.''))
          else Inl (PandasError ''index without timestamps'')
      | RangeIndex n \<Rightarrow> Inl (PandasError ''index without timestamps''))"

text \<open>A warning: its message, and the labels shown in it.\<close>

datatype warning = UserWarning string "string list"

datatype pyobject = is_DataFrame: DataFrame frame | SeriesObject index column | ListObject "cell list" | NoneObject

text \<open>
  \<open>save_data\<close> returns the warnings it emitted, or the exception, and the files as it
  leaves them. It also adds the columns it misses to the frame of its caller
  (\<open>add_missing_columns\<close>). Making the folder of the station changes no file.
\<close>

definition add_missing_columns :: "frame \<Rightarrow> frame" where
  "add_missing_columns data =
     (let data1 = (if ''discharge_vol_obs'' \<notin> set (labels data)
                   then assign_none ''discharge_vol_obs'' data else data)
      in if ''water_level_obs'' \<notin> set (labels data1)
         then assign_none ''water_level_obs'' data1 else data1)"

definition additional_columns :: "frame \<Rightarrow> string list" where
  "additional_columns data =
     sort (remdups (filter (\<lambda>l. l \<notin> set [''discharge_vol_obs'', ''water_level_obs'']) (labels data)))"

definition save_data :: "station \<Rightarrow> pyobject \<Rightarrow> fs \<Rightarrow> warning list result \<times> fs" where
  "save_data self obj s =
     (case obj of
        DataFrame data0 \<Rightarrow>
          (case select_columns [''date'', ''discharge_vol_obs'', ''water_level_obs'']
                  (add_missing_columns data0) of
             Inl e \<Rightarrow> (Inl e, s)
           | Inr data1 \<Rightarrow>
               (case (if ''date'' \<in> set (labels data1) then set_index ''date'' data1 else Inr data1) of
                  Inl e \<Rightarrow> (Inl e, s)
                | Inr data \<Rightarrow>
                    (case check_index (gauge_id self) (index data) of
                       Inl e \<Rightarrow> (Inl e, s)
                     | Inr u \<Rightarrow>
                         (let ws = (if length (additional_columns data) > 0
                                    then [UserWarning (gauge_id self @ '': Additional columns found: '')
                                            (additional_columns data)]
                                    else [])
                          in (Inr ws,
                              s\<lparr>data_files := (data_files s)
                                  (data_file (output_path self) (gauge_id self) \<mapsto> data)\<rparr>)))))
      | other \<Rightarrow> (Inl (ValueError ''Data must be a pandas dataframe.''), s))"

text \<open>\<open>read_csv\<close> on a data file: a range index, and the index that was written as the
  column \<open>date\<close>, whose timestamps come back as the strings written for them.\<close>

definition column_of_index :: "index \<Rightarrow> column" where
  "column_of_index i =
     (case i of
        DatetimeIndex tz ts \<Rightarrow> Values (map (PyDate tz) ts)
      | Index vs \<Rightarrow> Values vs
      | RangeIndex n \<Rightarrow> Values (map (\<lambda>k. PyFloat (of_nat k)) [0..<n]))"

definition read_csv_data :: "frame \<Rightarrow> frame" where
  "read_csv_data f =
     \<lparr>index = RangeIndex (index_length (index f)),
      columns = (''date'', column_of_index (index f)) # columns f\<rparr>"

definition get_data :: "station \<Rightarrow> bool \<Rightarrow> fs \<Rightarrow> frame result" where
  "get_data self date_index s =
     (case data_path self of
        None \<Rightarrow> Inl (FileNotFoundError (''No data found for station '' @ gauge_id self))
      | Some p \<Rightarrow>
          (case data_files s p of
             None \<Rightarrow> Inl (FileNotFoundError (concat p))
           | Some f \<Rightarrow>
               if date_index then set_index ''date'' (read_csv_data f) else Inr (read_csv_data f)))"

text \<open>
  \<open>save_metadata\<close>, given the row made of its twelve arguments. The file of the station
  is written first; the table of all stations is then created, rewritten with the row
  replaced and sorted by \<open>gauge_id\<close>, or extended by the row at its end. The table is
  read with \<open>read_csv\<close>, and the gauge id is looked for among the gauge ids that are
  strings then. \<open>sort_values\<close> puts the rows whose gauge id is NaN last, and they are
  written with an empty gauge id. (What \<open>read_csv\<close> makes of the other cells of the rows
  that are rewritten is not modelled: they keep their values.)
\<close>

definition sort_values_gauge_id :: "metadata_row list \<Rightarrow> metadata_row list" where
  "sort_values_gauge_id rows =
     sort_key col_gauge_id (filter (\<lambda>r. \<not> is_na (col_gauge_id r)) rows) @
     map (\<lambda>r. r\<lparr>col_gauge_id := []\<rparr>) (filter (\<lambda>r. is_na (col_gauge_id r)) rows)"

definition write_metadata1h :: "metadata_row list \<Rightarrow> metadata_folder \<Rightarrow> fs \<Rightarrow> fs" where
  "write_metadata1h rows d s = s\<lparr>metadata_dir := Some (d\<lparr>metadata1h_csv := Some rows\<rparr>)\<rparr>"

definition read_metadata1h :: "fs \<Rightarrow> metadata_row list option" where
  "read_metadata1h s = (case metadata_dir s of None \<Rightarrow> None | Some d \<Rightarrow> metadata1h_csv d)"

definition save_metadata :: "station \<Rightarrow> metadata_row \<Rightarrow> fs \<Rightarrow> unit result \<times> fs" where
  "save_metadata self row s =
     (let s1 = s\<lparr>metadata_files := (metadata_files s)
                  (meta_file (output_path self) (gauge_id self) \<mapsto> row)\<rparr>
      in case metadata_dir s1 of
           None \<Rightarrow> (Inl (OSError ''Cannot save file into a non-existent directory: metadata''), s1)
         | Some d \<Rightarrow>
             (case metadata1h_csv d of
                None \<Rightarrow> (Inr (), write_metadata1h [row] d s1)
              | Some meta \<Rightarrow>
                  if col_gauge_id row \<in> set (str_cells (map col_gauge_id meta))
                  then (Inr (),
                        write_metadata1h
                          (sort_values_gauge_id
                             (filter (\<lambda>r. col_gauge_id r \<noteq> col_gauge_id row) meta @ [row]))
                          d s1)
                  else (Inr (), write_metadata1h (meta @ [row]) d s1)))"

section \<open>Identifiers with a region prefix\<close>

text \<open>An identifier that starts with one of the thirteen region codes, as every NUTS id
  does, and a table of all stations whose gauge ids are such identifiers.\<close>

definition has_region_prefix :: "string \<Rightarrow> bool" where
  "has_region_prefix g = list_ex (startswith g) region_codes"

definition region_prefixed :: "metadata_row list \<Rightarrow> bool" where
  "region_prefixed meta = list_all (\<lambda>r. has_region_prefix (col_gauge_id r)) meta"

definition region_prefixed_table :: "fs \<Rightarrow> bool" where
  "region_prefixed_table s =
     (case read_metadata1h s of None \<Rightarrow> True | Some meta \<Rightarrow> region_prefixed meta)"

section \<open>States and inputs of the examples\<close>

text \<open>An output directory whose folder \<open>metadata\<close> holds the two files of the mapping,
  with the same rows, and nothing else.\<close>

definition mapping_store :: "mapping_entry list \<Rightarrow> fs" where
  "mapping_store m =
     \<lparr>metadata_dir = Some \<lparr>nuts_mapping_csv = Some m, nuts_mapping_json = Some m,
                             metadata1h_csv = None\<rparr>,
      data_files = Map.empty, metadata_files = Map.empty\<rparr>"

text \<open>The mapping with one station, and one in which the nuts id of a station is the
  provider id of another.\<close>

definition mapping_4711 :: "mapping_entry list" where
  "mapping_4711 = [\<lparr>provider_id = ''4711'', nuts_id = ''DE110000''\<rparr>]"

definition crossed_mapping :: "mapping_entry list" where
  "crossed_mapping =
     [\<lparr>provider_id = ''4711'', nuts_id = ''DE110000''\<rparr>,
      \<lparr>provider_id = ''DE110000'', nuts_id = ''DE210000''\<rparr>]"

text \<open>The object of station \<open>DE110000\<close> as the constructor makes it when the station has
  no file yet.\<close>

definition station_DE110000 :: station where
  "station_DE110000 =
     \<lparr>gauge_id = ''DE110000'', output_path = [''DE1'', ''DE110000''],
      data_path = None, metadata = None\<rparr>"

text \<open>Three hours in UTC; a frame with them as the column \<open>date\<close>, a discharge column
  and one more column; a frame with them as its index and no column \<open>date\<close>; the frame
  that \<open>save_data\<close> writes for the first one, and the files after it.\<close>

definition utc_hours :: "int list" where
  "utc_hours = [0, 3600000000000, 7200000000000]"

definition frame_with_quality :: frame where
  "frame_with_quality =
     \<lparr>index = RangeIndex 3,
      columns = [(''date'', Datetimes (Some ''UTC'') utc_hours),
                 (''discharge_vol_obs'', Values [PyFloat 1, PyFloat 2, PyNone]),
                 (''quality'', Values [PyStr ''ok'', PyStr ''ok'', PyStr ''missing''])]\<rparr>"

definition frame_without_date :: frame where
  "frame_without_date =
     \<lparr>index = DatetimeIndex (Some ''UTC'') utc_hours,
      columns = [(''discharge_vol_obs'', Values [PyFloat 1, PyFloat 2, PyNone])]\<rparr>"

definition written_frame :: frame where
  "written_frame =
     \<lparr>index = DatetimeIndex (Some ''UTC'') utc_hours,
      columns = [(''discharge_vol_obs'', Values [PyFloat 1, PyFloat 2, PyNone]),
                 (''water_level_obs'', Values (replicate 3 PyNone))]\<rparr>"

definition store_with_data :: fs where
  "store_with_data =
     (mapping_store mapping_4711)
       \<lparr>data_files := [[''DE1'', ''DE110000'', ''DE110000_data.csv''] \<mapsto> written_frame]\<rparr>"

text \<open>Rows of metadata with a gauge id and a gauge name, and an output directory whose
  table of all stations has the given rows.\<close>

definition named_row :: "string \<Rightarrow> string \<Rightarrow> metadata_row" where
  "named_row g n =
     \<lparr>col_gauge_id = g, col_provider_id = PyNone, col_gauge_name = PyStr n,
      col_water_body_name = PyNone, col_federal_state = PyNone, col_lon = PyNone,
      col_lat = PyNone, col_easting = PyNone, col_northing = PyNone,
      col_elev_metadata = PyNone, col_area_metadata = PyNone, col_part_of_camelsp = PyNone\<rparr>"

definition isar :: metadata_row where
  "isar = named_row ''DE210000'' ''Isar''"

definition neckar :: metadata_row where
  "neckar = named_row ''DE110000'' ''Neckar''"

definition rhein :: metadata_row where
  "rhein = named_row ''DE110000'' ''Rhein''"

definition metadata_store :: "metadata_row list \<Rightarrow> fs" where
  "metadata_store rows =
     \<lparr>metadata_dir = Some \<lparr>nuts_mapping_csv = None, nuts_mapping_json = None,
                             metadata1h_csv = Some rows\<rparr>,
      data_files = Map.empty, metadata_files = Map.empty\<rparr>"

text \<open>Whether a result is the exception TypeError.\<close>

definition raises_TypeError :: "'a result \<Rightarrow> bool" where
  "raises_TypeError r = (case r of Inl (TypeError m) \<Rightarrow> True | _ \<Rightarrow> False)"

section \<open>What read_csv makes of a text\<close>

lemmas read_csv_defs = is_na_def NA_VALUES_def is_blank_def is_digit_def is_sign_def token_def
  unsigned_def all_digits_def int_literal_def digits_nat_def is_negative_def int_value_def
  int64_literal_def exponent_def float_literal_def bool_literal_def infer_dtype_def
  str_cells_def

lemma region_codes_simp:
  "region_codes = [''DE1'', ''DE2'', ''DE4'', ''DE7'', ''DE8'', ''DE9'', ''DEA'', ''DEB'',
                   ''DEC'', ''DED'', ''DEE'', ''DEF'', ''DEG'']"
  by (simp add: region_codes_def INPUT_DEFAULT_PATHS_def)

lemma region_code_length: "bl \<in> set region_codes \<Longrightarrow> length bl = 3"
  by (auto simp add: region_codes_simp)

text \<open>A column with a plain text in it is a column of strings, and the plain text is
  one of its strings.\<close>

lemma plain_Object:
  assumes "c \<in> set cells" and "plain c"
  shows "infer_dtype cells = Object"
proof -
  have "\<not> list_all int64_literal cells"
       "\<not> list_all (\<lambda>c. is_na c \<or> int_literal c \<or> float_literal c) cells"
       "\<not> list_all bool_literal cells" "\<not> list_all (\<lambda>c. is_na c \<or> bool_literal c) cells"
    using assms by (auto simp add: list_all_iff plain_def int64_literal_def)
  then show ?thesis by (simp add: infer_dtype_def)
qed

lemma plain_str_cells: "c \<in> set cells \<Longrightarrow> plain c \<Longrightarrow> c \<in> set (str_cells cells)"
  by (simp add: str_cells_def plain_Object) (simp add: plain_def)

lemma str_cells_subset: "c \<in> set (str_cells cells) \<Longrightarrow> c \<in> set cells \<and> \<not> is_na c"
  by (auto simp add: str_cells_def split: if_splits)

lemma token_first: "\<not> is_blank x \<Longrightarrow> \<exists>t. token (x # xs) = x # t"
proof -
  assume x: "\<not> is_blank x"
  have "dropWhile is_blank (rev xs @ [x]) = dropWhile is_blank (rev xs) @ [x]"
    using x by (simp add: dropWhile_append3)
  with x show ?thesis by (simp add: token_def)
qed

lemma lower_char_D: "lower_char (CHR ''D'') = CHR ''d''"
  by code_simp

text \<open>A text that starts with \<open>DE\<close>, as every text with a region prefix does, is
  plain.\<close>

lemma DE_plain: "plain (CHR ''D'' # CHR ''E'' # t)"
proof -
  obtain u where u: "token (CHR ''D'' # CHR ''E'' # t) = CHR ''D'' # u"
    using token_first [of "CHR ''D''" "CHR ''E'' # t"] by (auto simp add: is_blank_def)
  have "lower (CHR ''D'' # u) \<noteq> ''inf''" "lower (CHR ''D'' # u) \<noteq> ''infinity''"
    by (simp_all add: lower_def lower_char_D)
  with u show ?thesis
    by (simp add: plain_def is_na_def NA_VALUES_def int_literal_def float_literal_def
        bool_literal_def unsigned_def is_sign_def all_digits_def is_digit_def Let_def)
qed

lemma region_prefix_plain:
  assumes "bl \<in> set region_codes" and "startswith n bl"
  shows "plain n"
proof -
  from assms obtain t where "n = CHR ''D'' # CHR ''E'' # t"
    by (cases n; cases "tl n") (auto simp add: region_codes_simp startswith_def)
  then show ?thesis by (simp add: DE_plain)
qed

lemma has_region_prefix_plain: "has_region_prefix g \<Longrightarrow> plain g"
  by (auto simp add: has_region_prefix_def list_ex_iff intro: region_prefix_plain)

lemma infer_4711: "infer_dtype [''4711''] = Int64"
  by (simp add: read_csv_defs)

lemma str_cells_4711: "str_cells [''4711''] = []"
  by (simp add: str_cells_def infer_4711)

lemma to_csv_4711: "to_csv_text [''4711''] = [''4711'']"
  by (simp add: to_csv_text_def infer_4711 int_text_def int_value_def is_negative_def token_def
        is_blank_def unsigned_def is_sign_def digits_nat_def decimal.simps)

lemma infer_DE11000: "infer_dtype [''DE11000''] = Object"
  by (rule plain_Object [of "''DE11000''"]) (simp_all add: DE_plain)

section \<open>The identifier mapping\<close>

lemma length_to_csv_text: "length (to_csv_text cells) = length cells"
  by (simp add: to_csv_text_def split: dtype.splits)

lemma nuts_id_zip:
  "length cs = length ys \<Longrightarrow>
     map nuts_id (map (\<lambda>(c, e). e\<lparr>provider_id := c\<rparr>) (zip cs ys)) = map nuts_id ys"
  by (induction cs ys rule: list_induct2) simp_all

lemma nuts_id_reread: "map nuts_id (reread mapping) = map nuts_id mapping"
  by (simp add: reread_def nuts_id_zip length_to_csv_text del: map_map)

lemma generate_nuts_id_startswith: "generate_nuts_id bl m = Inr n \<Longrightarrow> startswith n bl"
  by (auto simp add: generate_nuts_id_def startswith_def Let_def split: list.splits option.splits)

lemma rows_startswith_success:
  "rows_startswith mapping bl = Inr bl_mapping \<Longrightarrow> \<not> list_ex is_na (map nuts_id mapping)"
  by (auto simp add: rows_startswith_def split: if_splits)

lemma update_nuts_mapping_success:
  assumes "update_nuts_mapping p bl s = (Inr n, s1)"
  shows "\<exists>mapping bl_mapping. bl \<in> set region_codes \<and> read_nuts_mapping_csv s = Some mapping \<and>
           rows_startswith mapping bl = Inr bl_mapping \<and>
           generate_nuts_id bl bl_mapping = Inr n \<and>
           read_nuts_mapping_csv s1 =
             Some (sort_key nuts_id (reread mapping @ [\<lparr>provider_id = p, nuts_id = n\<rparr>]))"
  using assms
  by (auto simp add: update_nuts_mapping_def Let_def write_nuts_mapping_def
        read_nuts_mapping_csv_def
      split: if_splits option.splits sum.splits)

lemma first_DE1:
  "update_nuts_mapping ''a'' ''DE1'' (mapping_store []) =
     (Inr ''DE11000'', mapping_store [\<lparr>provider_id = ''a'', nuts_id = ''DE11000''\<rparr>])"
  by (simp add: update_nuts_mapping_def region_codes_simp read_nuts_mapping_csv_def
        mapping_store_def generate_nuts_id_def write_nuts_mapping_def Let_def
        rows_startswith_def reread_def to_csv_text_def read_csv_defs)

lemma int_11000: "py_int ''11000'' = Some 11000"
  by (simp add: py_int_def strip_def is_space_def unsigned_value_def digit_value_def)

lemma format_11010: "format_05d 11010 = ''11010''"
  by (simp add: format_05d_def zfill_def decimal.simps)

lemma second_DE1:
  "fst (update_nuts_mapping ''b'' ''DE1''
          (mapping_store [\<lparr>provider_id = ''a'', nuts_id = ''DE11000''\<rparr>])) =
     Inr ''DE111010''"
  by (simp add: update_nuts_mapping_def region_codes_simp read_nuts_mapping_csv_def
        mapping_store_def generate_nuts_id_def write_nuts_mapping_def Let_def startswith_def
        last5_def int_11000 format_11010 rows_startswith_def read_csv_defs lower_def
        lower_char_def)

lemma int_A1000: "py_int ''A1000'' = None"
  by (simp add: py_int_def strip_def is_space_def unsigned_value_def digit_value_def)

lemma second_DEA:
  "fst (update_nuts_mapping ''b'' ''DEA''
          (mapping_store [\<lparr>provider_id = ''a'', nuts_id = ''DEA1000''\<rparr>])) =
     Inl (ValueError (''invalid literal for int() with base 10: '' @
                      [CHR 0x27] @ ''A1000'' @ [CHR 0x27]))"
  by (simp add: update_nuts_mapping_def region_codes_simp read_nuts_mapping_csv_def
        mapping_store_def generate_nuts_id_def write_nuts_mapping_def Let_def startswith_def
        last5_def int_A1000 rows_startswith_def read_csv_defs lower_def lower_char_def)

lemma output_path_DE11000:
  "get_output_path (Some ''DE11000'') =
     Inl (ValueError (''Given camels_id '' @ [CHR 0x27] @ ''DE11000'' @ [CHR 0x27] @
                      '' not recognized.''))"
  by (simp add: get_output_path_def region_codes_simp)

text \<open>
  The first identifier of a region has seven characters, whatever the region and the
  provider: the region code and \<open>1000\<close>, the one place where the sequence number is not
  written with five digits.
\<close>

lemma first_registration:
  assumes "bl \<in> set region_codes" and "read_nuts_mapping_csv s = Some mapping"
      and "rows_startswith mapping bl = Inr []"
      and "p \<notin> set (str_cells (map provider_id mapping))"
  shows "fst (update_nuts_mapping p bl s) = Inr (bl @ ''1000'') \<and> length (bl @ ''1000'') = 7"
  using assms region_code_length [OF assms(1)]
  by (simp add: update_nuts_mapping_def generate_nuts_id_def Let_def del: set_map)

text \<open>
  Claim C1: registering provider ids for one region, in a mapping that has no entry of
  the region, gives the region code followed by the five-digit numbers 1000, 1010, 1020,
  ..., each identifier of 8 characters. The code does not: for region \<open>DE1\<close> and an
  empty mapping the first identifier is \<open>DE11000\<close>, of 7 characters, which
  \<open>get_output_path\<close> refuses as the identifier of a station; the second one is
  \<open>DE111010\<close>, since the last five characters of \<open>DE11000\<close> are \<open>11000\<close>; and for
  region \<open>DEA\<close> the second registration raises ValueError, since \<open>A1000\<close> is not a
  number.
\<close>

theorem registrations_from_empty_mapping:
  "update_nuts_mapping ''a'' ''DE1'' (mapping_store []) =
     (Inr ''DE11000'', mapping_store [\<lparr>provider_id = ''a'', nuts_id = ''DE11000''\<rparr>])
   \<and> length ''DE11000'' = 7
   \<and> get_output_path (Some ''DE11000'') =
       Inl (ValueError (''Given camels_id '' @ [CHR 0x27] @ ''DE11000'' @ [CHR 0x27] @
                        '' not recognized.''))
   \<and> fst (update_nuts_mapping ''b'' ''DE1''
            (mapping_store [\<lparr>provider_id = ''a'', nuts_id = ''DE11000''\<rparr>])) =
       Inr ''DE111010''
   \<and> fst (update_nuts_mapping ''b'' ''DEA''
            (mapping_store [\<lparr>provider_id = ''a'', nuts_id = ''DEA1000''\<rparr>])) =
       Inl (ValueError (''invalid literal for int() with base 10: '' @
                        [CHR 0x27] @ ''A1000'' @ [CHR 0x27]))"
  using first_DE1 second_DE1 second_DEA output_path_DE11000 by simp

text \<open>
  When a provider id that is a plain text has been registered, registering it again, for
  any valid region code, raises the ValueError that says it is already in the mapping,
  and leaves every file as it was.
\<close>

lemma register_twice_conflict_plain:
  assumes "update_nuts_mapping p bl s = (Inr n, s1)"
      and "bl' \<in> set region_codes"
      and "plain p"
  shows "update_nuts_mapping p bl' s1 =
           (Inl (ValueError (''provider_id '' @ p @ '' is already in the mapping'')), s1)"
proof -
  from update_nuts_mapping_success [OF assms(1)] obtain mapping bl_mapping where
    bl: "bl \<in> set region_codes" and
    r: "rows_startswith mapping bl = Inr bl_mapping" and
    g: "generate_nuts_id bl bl_mapping = Inr n" and
    m: "read_nuts_mapping_csv s1 =
          Some (sort_key nuts_id (reread mapping @ [\<lparr>provider_id = p, nuts_id = n\<rparr>]))"
    by blast
  let ?m1 = "sort_key nuts_id (reread mapping @ [\<lparr>provider_id = p, nuts_id = n\<rparr>])"
  have n: "plain n"
    using region_prefix_plain [OF bl generate_nuts_id_startswith [OF g]] .
  have ids: "set (map nuts_id ?m1) = insert n (set (map nuts_id mapping))"
    using nuts_id_reread [of mapping] by (simp del: map_map) (metis list.set_map)
  have 1: "infer_dtype (map nuts_id ?m1) = Object"
    by (rule plain_Object [OF _ n]) (simp add: ids)
  have 2: "\<not> list_ex is_na (map nuts_id ?m1)"
    using rows_startswith_success [OF r] n ids
    by (auto simp add: list_ex_iff plain_def simp del: set_map)
  have 3: "p \<in> set (str_cells (map provider_id ?m1))"
    by (rule plain_str_cells [OF _ assms(3)]) simp
  from m assms(2) 1 2 3 show ?thesis
    by (simp add: update_nuts_mapping_def rows_startswith_def del: set_map)
qed

lemma first_4711:
  "update_nuts_mapping ''4711'' ''DE1'' (mapping_store []) =
     (Inr ''DE11000'', mapping_store [\<lparr>provider_id = ''4711'', nuts_id = ''DE11000''\<rparr>])"
  by (simp add: update_nuts_mapping_def region_codes_simp read_nuts_mapping_csv_def
        mapping_store_def generate_nuts_id_def write_nuts_mapping_def Let_def
        rows_startswith_def reread_def to_csv_text_def read_csv_defs)

lemma second_4711:
  "update_nuts_mapping ''4711'' ''DE1''
     (mapping_store [\<lparr>provider_id = ''4711'', nuts_id = ''DE11000''\<rparr>]) =
   (Inr ''DE111010'',
    mapping_store [\<lparr>provider_id = ''4711'', nuts_id = ''DE11000''\<rparr>,
                   \<lparr>provider_id = ''4711'', nuts_id = ''DE111010''\<rparr>])"
  by (simp add: update_nuts_mapping_def region_codes_simp read_nuts_mapping_csv_def
        mapping_store_def generate_nuts_id_def write_nuts_mapping_def Let_def startswith_def
        last5_def int_11000 format_11010 rows_startswith_def infer_DE11000 str_cells_4711
        reread_def to_csv_4711 is_na_def NA_VALUES_def)

text \<open>
  Claim C5: when a provider id has been registered, registering it again, for any valid
  region code, raises the ValueError that says it is already in the mapping (the
  Conflict of the specification), and leaves the csv file and the json file of the
  mapping unchanged. The code does not for a provider id of digits only: the csv file is
  read without a dtype, a column of provider ids that are all integers is read as
  integers, and the string is not found among them. After \<open>4711\<close> has been registered
  in an empty mapping, registering \<open>4711\<close> again succeeds: it returns a second nuts id,
  and both files have two rows.
\<close>

theorem register_4711_twice:
  "update_nuts_mapping ''4711'' ''DE1'' (mapping_store []) =
     (Inr ''DE11000'', mapping_store [\<lparr>provider_id = ''4711'', nuts_id = ''DE11000''\<rparr>])
   \<and> str_cells (map provider_id [\<lparr>provider_id = ''4711'', nuts_id = ''DE11000''\<rparr>]) = []
   \<and> fst (update_nuts_mapping ''4711'' ''DE1''
            (mapping_store [\<lparr>provider_id = ''4711'', nuts_id = ''DE11000''\<rparr>])) =
       Inr ''DE111010''
   \<and> read_nuts_mapping_csv
        (snd (update_nuts_mapping ''4711'' ''DE1''
               (mapping_store [\<lparr>provider_id = ''4711'', nuts_id = ''DE11000''\<rparr>]))) =
       Some [\<lparr>provider_id = ''4711'', nuts_id = ''DE11000''\<rparr>,
             \<lparr>provider_id = ''4711'', nuts_id = ''DE111010''\<rparr>]
   \<and> map_option (map nuts_id)
        (read_nuts_mapping_json
           (snd (update_nuts_mapping ''4711'' ''DE1''
                  (mapping_store [\<lparr>provider_id = ''4711'', nuts_id = ''DE11000''\<rparr>])))) =
       Some [''DE11000'', ''DE111010'']"
  using first_4711 second_4711 str_cells_4711
  by (simp add: read_nuts_mapping_csv_def read_nuts_mapping_json_def mapping_store_def)

text \<open>
  Claim C10: when the json file of the mapping exists, \<open>get_nuts_mapping\<close> with a format
  whose lower case is none of \<open>json\<close>, \<open>csv\<close>, \<open>df\<close> and \<open>dataframe\<close> raises
  nothing and returns None.
\<close>

theorem get_nuts_mapping_unknown_format:
  assumes "read_nuts_mapping_json s = Some mapping"
      and "lower format \<notin> set [''json'', ''csv'', ''df'', ''dataframe'']"
  shows "get_nuts_mapping format s = Inr None"
  using assms by (simp add: get_nuts_mapping_def)

lemma lower_XML: "lower ''XML'' = ''xml''"
  by code_simp

theorem get_nuts_mapping_unknown_format_witness:
  "read_nuts_mapping_json (mapping_store []) = Some []
   \<and> lower ''XML'' \<notin> set [''json'', ''csv'', ''df'', ''dataframe'']
   \<and> get_nuts_mapping ''XML'' (mapping_store []) = Inr None"
  using get_nuts_mapping_unknown_format [of "mapping_store []" "[]" "''XML''"]
  by (simp add: lower_XML read_nuts_mapping_json_def mapping_store_def)

section \<open>The constructor's dispatch\<close>

text \<open>
  Claim C4, as stated: an identifier that is an existing nuts id is returned as it is,
  also where it is, besides, the provider id of another entry. The code looks among the
  provider ids first: in \<open>crossed_mapping\<close> the identifier \<open>DE110000\<close> is the nuts id
  of the first entry and the provider id of the second, and the dispatch gives the nuts
  id of the second, \<open>DE210000\<close>.
\<close>

theorem dispatch_both_counterexample:
  "''DE110000'' \<in> set (map nuts_id crossed_mapping)
   \<and> ''DE110000'' \<in> set (map provider_id crossed_mapping)
   \<and> dispatch crossed_mapping ''DE110000'' = Inr (Scalar ''DE210000'')
   \<and> dispatch crossed_mapping ''DE110000'' \<noteq> Inr (Scalar ''DE110000'')"
  by (simp add: dispatch_def crossed_mapping_def)

text \<open>
  Claim C4, amended: on a mapping that is not empty, an identifier that is the provider
  id of exactly one entry gives the nuts id of that entry (also when it is the nuts id
  of another entry); an identifier that is no provider id and is an existing nuts id is
  returned as it is; an identifier that is neither raises the ValueError that says so
  (its message is the identifier followed by \<open>not_in_mapping\<close>).
\<close>

theorem dispatch_provider_first:
  assumes "mapping \<noteq> []"
  shows "(filter (\<lambda>e. provider_id e = g) mapping = [e] \<longrightarrow>
            dispatch mapping g = Inr (Scalar (nuts_id e)))
       \<and> (g \<notin> set (map provider_id mapping) \<and> g \<in> set (map nuts_id mapping) \<longrightarrow>
            dispatch mapping g = Inr (Scalar g))
       \<and> (g \<notin> set (map provider_id mapping) \<and> g \<notin> set (map nuts_id mapping) \<longrightarrow>
            dispatch mapping g = Inl (ValueError (g @ not_in_mapping)))"
proof (intro conjI impI)
  assume f: "filter (\<lambda>e. provider_id e = g) mapping = [e]"
  then have "e \<in> set (filter (\<lambda>e. provider_id e = g) mapping)" by simp
  then have "g \<in> set (map provider_id mapping)" by auto
  with assms f show "dispatch mapping g = Inr (Scalar (nuts_id e))"
    by (simp add: dispatch_def del: set_map)
qed (use assms in \<open>simp_all add: dispatch_def del: set_map\<close>)

theorem dispatch_provider_first_witness:
  "crossed_mapping \<noteq> []
   \<and> dispatch crossed_mapping ''DE110000'' = Inr (Scalar ''DE210000'')
   \<and> dispatch crossed_mapping ''DE210000'' = Inr (Scalar ''DE210000'')
   \<and> dispatch crossed_mapping ''0815'' = Inl (ValueError (''0815'' @ not_in_mapping))"
  using dispatch_provider_first [of crossed_mapping "''DE110000''"
          "\<lparr>provider_id = ''DE110000'', nuts_id = ''DE210000''\<rparr>"]
        dispatch_provider_first [of crossed_mapping "''DE210000''"]
        dispatch_provider_first [of crossed_mapping "''0815''"]
  by (simp add: crossed_mapping_def)

section \<open>Saving and loading the time series\<close>

lemma map_of_labels: "(map_of (columns d) l = None) = (l \<notin> set (labels d))"
  by (simp add: labels_def map_of_eq_None_iff)

lemma labels_add_missing_columns:
  "set (labels (add_missing_columns d)) =
     set (labels d) \<union> {''discharge_vol_obs'', ''water_level_obs''}"
  by (auto simp add: add_missing_columns_def assign_none_def labels_def Let_def)

lemma lookup_columns_labels: "lookup_columns cols ls = Some cs \<Longrightarrow> map fst cs = ls"
  by (induction ls arbitrary: cs) (auto split: option.splits)

lemma select_columns_labels: "select_columns ls d = Inr d' \<Longrightarrow> labels d' = ls"
  by (auto simp add: select_columns_def labels_def lookup_columns_labels split: option.splits)

lemma set_index_labels:
  "set_index l d = Inr d' \<Longrightarrow> labels d' = filter (\<lambda>k. k \<noteq> l) (labels d)"
  by (auto simp add: set_index_def labels_def filter_map comp_def split: option.splits)

text \<open>What a successful \<open>save_data\<close> was given and did: a frame, which passed the
  projection, with the three labels; no column is left beside the two of the values, and
  the data file of the station exists afterwards.\<close>

lemma save_data_success:
  assumes "save_data self obj s = (Inr ws, s')"
  shows "ws = [] \<and> data_files s' (data_file (output_path self) (gauge_id self)) \<noteq> None"
proof (cases obj)
  case (DataFrame d)
  from assms DataFrame obtain d1 where
    d1: "select_columns [''date'', ''discharge_vol_obs'', ''water_level_obs'']
           (add_missing_columns d) = Inr d1"
    by (auto simp add: save_data_def split: sum.splits)
  then have l1: "labels d1 = [''date'', ''discharge_vol_obs'', ''water_level_obs'']"
    by (rule select_columns_labels)
  from assms DataFrame d1 l1 obtain d2 where d2: "set_index ''date'' d1 = Inr d2"
    by (auto simp add: save_data_def split: sum.splits)
  then have "labels d2 = [''discharge_vol_obs'', ''water_level_obs'']"
    using l1 by (simp add: set_index_labels)
  then have "additional_columns d2 = []"
    by (simp add: additional_columns_def)
  with assms DataFrame d1 l1 d2 show ?thesis
    by (auto simp add: save_data_def Let_def split: sum.splits)
qed (use assms in \<open>simp_all add: save_data_def\<close>)

lemma lower_csv: "lower ''csv'' = ''csv''"
  by code_simp

lemma construct_DE110000:
  "Station1h ''DE110000'' (mapping_store mapping_4711) = Inr station_DE110000"
  by (simp add: Station1h_def get_nuts_mapping_def lower_csv read_nuts_mapping_json_def
        mapping_store_def mapping_4711_def dispatch_def get_output_path_def region_codes_simp
        data_file_def meta_file_def has_metadata_def station_DE110000_def Let_def)

lemma save_frame_with_quality:
  "save_data station_DE110000 (DataFrame frame_with_quality) (mapping_store mapping_4711) =
     (Inr [], store_with_data)"
  by (simp add: save_data_def frame_with_quality_def station_DE110000_def
        add_missing_columns_def labels_def assign_none_def index_length_def select_columns_def
        set_index_def index_of_column_def check_index_def utc_hours_def one_hour_def str_tz_def
        additional_columns_def data_file_def store_with_data_def mapping_store_def
        written_frame_def Let_def)

lemma construct_after_save:
  "Station1h ''DE110000'' store_with_data =
     Inr (station_DE110000\<lparr>data_path := Some [''DE1'', ''DE110000'', ''DE110000_data.csv'']\<rparr>)"
  by (simp add: Station1h_def get_nuts_mapping_def lower_csv read_nuts_mapping_json_def
        mapping_store_def mapping_4711_def dispatch_def get_output_path_def region_codes_simp
        data_file_def meta_file_def has_metadata_def station_DE110000_def store_with_data_def
        Let_def)

lemma get_data_new_object:
  "get_data (station_DE110000\<lparr>data_path := Some [''DE1'', ''DE110000'', ''DE110000_data.csv'']\<rparr>)
     False store_with_data = Inr (read_csv_data written_frame)"
  by (simp add: get_data_def station_DE110000_def store_with_data_def)

text \<open>For the object as the constructor leaves it, on the files it was made from,
  \<open>get_data\<close> returns a frame exactly when the data file of the station exists.\<close>

lemma constructed_get_data:
  assumes "Station1h g s = Inr st"
  shows "(\<exists>f. get_data st b s = Inr f) =
           (data_files s (data_file (output_path st) (gauge_id st)) \<noteq> None)"
  using assms
  by (auto simp add: Station1h_def get_data_def set_index_def read_csv_data_def Let_def
      split: sum.splits option.splits mapping_value.splits located.splits if_splits)

text \<open>
  Claim C3: \<open>get_data\<close> raises FileNotFoundError exactly when the time series of the
  station was never saved; after a successful \<open>save_data\<close> on an object, \<open>get_data\<close> on
  that object succeeds. The code does not: the constructor sets \<open>data_path\<close> once, and
  \<open>save_data\<close> does not set it. On an object made while the station had no data file,
  a successful \<open>save_data\<close> writes the file, and \<open>get_data\<close> on the same object still
  raises FileNotFoundError.
\<close>

theorem get_data_after_save_data:
  assumes "data_path self = None"
      and "save_data self obj s = (Inr ws, s')"
  shows "data_files s' (data_file (output_path self) (gauge_id self)) \<noteq> None
       \<and> get_data self date_index s' =
           Inl (FileNotFoundError (''No data found for station '' @ gauge_id self))"
  using assms save_data_success [OF assms(2)] by (simp add: get_data_def)

theorem get_data_after_save_data_witness:
  "Station1h ''DE110000'' (mapping_store mapping_4711) = Inr station_DE110000
   \<and> data_path station_DE110000 = None
   \<and> save_data station_DE110000 (DataFrame frame_with_quality) (mapping_store mapping_4711) =
       (Inr [], store_with_data)
   \<and> data_files store_with_data [''DE1'', ''DE110000'', ''DE110000_data.csv''] =
       Some written_frame
   \<and> get_data station_DE110000 False store_with_data =
       Inl (FileNotFoundError ''No data found for station DE110000'')"
  using get_data_after_save_data [OF _ save_frame_with_quality, of False]
        construct_DE110000 save_frame_with_quality
  by (simp add: station_DE110000_def store_with_data_def)

text \<open>
  Claim C7: for a valid series with columns beside \<open>discharge_vol_obs\<close> and
  \<open>water_level_obs\<close>, \<open>save_data\<close> emits a warning that names them, and writes the file.
  The code does not warn: the frame is reduced to the columns \<open>date\<close>,
  \<open>discharge_vol_obs\<close> and \<open>water_level_obs\<close> before the additional columns are looked
  for, so that none is ever found. Every successful call emits no warning, as the call
  with \<open>frame_with_quality\<close>, which has the column \<open>quality\<close>.
\<close>

theorem save_data_never_warns:
  assumes "save_data self obj s = (Inr ws, s')"
  shows "ws = []"
  using save_data_success [OF assms] by simp

theorem save_data_never_warns_witness:
  "''quality'' \<in> set (labels frame_with_quality)
   \<and> save_data station_DE110000 (DataFrame frame_with_quality) (mapping_store mapping_4711) =
       (Inr [], store_with_data)
   \<and> data_files store_with_data [''DE1'', ''DE110000'', ''DE110000_data.csv''] =
       Some written_frame"
  using save_data_never_warns [OF save_frame_with_quality] save_frame_with_quality
  by (simp add: labels_def frame_with_quality_def store_with_data_def)

text \<open>
  Claim C8, as stated: \<open>save_data\<close> on an object that is no data frame raises TypeError.
  The exception of the code is a ValueError, here for the object None.
\<close>

theorem save_data_not_a_frame_counterexample:
  "\<not> is_DataFrame NoneObject
   \<and> fst (save_data station_DE110000 NoneObject (mapping_store mapping_4711)) =
       Inl (ValueError ''Data must be a pandas dataframe.'')
   \<and> \<not> raises_TypeError (fst (save_data station_DE110000 NoneObject (mapping_store mapping_4711)))"
  by (simp add: save_data_def raises_TypeError_def)

text \<open>
  Claim C8, amended: \<open>save_data\<close> on an object that is no data frame raises the
  ValueError \<open>Data must be a pandas dataframe.\<close>, before any check of the index, and
  leaves every file as it was.
\<close>

theorem save_data_not_a_frame:
  assumes "\<not> is_DataFrame obj"
  shows "save_data self obj s = (Inl (ValueError ''Data must be a pandas dataframe.''), s)"
  using assms by (cases obj) (simp_all add: save_data_def)

theorem save_data_not_a_frame_witness:
  "\<not> is_DataFrame (ListObject [PyFloat 1, PyFloat 2])
   \<and> save_data station_DE110000 (ListObject [PyFloat 1, PyFloat 2]) store_with_data =
       (Inl (ValueError ''Data must be a pandas dataframe.''), store_with_data)"
  using save_data_not_a_frame [of "ListObject [PyFloat 1, PyFloat 2]" station_DE110000 store_with_data]
  by simp

text \<open>
  Claim C9: on a data frame that has no column \<open>date\<close>, also one whose dates are its
  index, \<open>save_data\<close> raises KeyError at the projection on the three columns: none of
  the checks of the index is reached, whatever the index is, and every file is left as it
  was.
\<close>

theorem save_data_without_date_column:
  assumes "''date'' \<notin> set (labels d)"
  shows "save_data self (DataFrame d) s = (Inl (KeyError ''['date'] not in index''), s)"
proof -
  have 1: "''date'' \<notin> set (labels (add_missing_columns d))"
    using assms by (simp add: labels_add_missing_columns)
  then have 2: "map_of (columns (add_missing_columns d)) ''date'' = None"
    by (simp add: map_of_labels)
  have 3: "''discharge_vol_obs'' \<in> set (labels (add_missing_columns d))"
          "''water_level_obs'' \<in> set (labels (add_missing_columns d))"
    by (simp_all add: labels_add_missing_columns)
  show ?thesis
    using 1 2 3 by (simp add: save_data_def select_columns_def)
qed

theorem save_data_without_date_column_witness:
  "''date'' \<notin> set (labels frame_without_date)
   \<and> index frame_without_date = DatetimeIndex (Some ''UTC'') utc_hours
   \<and> check_index ''DE110000'' (index frame_without_date) = Inr ()
   \<and> save_data station_DE110000 (DataFrame frame_without_date) (mapping_store mapping_4711) =
       (Inl (KeyError ''['date'] not in index''), mapping_store mapping_4711)"
  using save_data_without_date_column
          [of frame_without_date station_DE110000 "mapping_store mapping_4711"]
  by (simp add: labels_def frame_without_date_def check_index_def utc_hours_def one_hour_def
        str_tz_def)

section \<open>The table of all stations\<close>

lemma sort_values_no_na:
  assumes "list_all (\<lambda>r. \<not> is_na (col_gauge_id r)) rows"
  shows "sort_values_gauge_id rows = sort_key col_gauge_id rows"
proof -
  from assms have "filter (\<lambda>r. \<not> is_na (col_gauge_id r)) rows = rows"
    "filter (\<lambda>r. is_na (col_gauge_id r)) rows = []"
    by (auto simp add: list_all_iff filter_empty_conv)
  then show ?thesis by (simp add: sort_values_gauge_id_def)
qed

lemma region_prefixed_no_na:
  "region_prefixed rows \<Longrightarrow> list_all (\<lambda>r. \<not> is_na (col_gauge_id r)) rows"
  using has_region_prefix_plain by (auto simp add: region_prefixed_def list_all_iff plain_def)

text \<open>In a table of gauge ids with a region prefix, such a gauge id is found by
  \<open>save_metadata\<close> exactly when it is in the table.\<close>

lemma region_prefixed_member:
  assumes "region_prefixed meta" and "has_region_prefix g"
  shows "(g \<in> set (str_cells (map col_gauge_id meta))) = (g \<in> set (map col_gauge_id meta))"
  using assms plain_str_cells [OF _ has_region_prefix_plain [OF assms(2)]] str_cells_subset
  by blast

lemma save_metadata_region_prefixed:
  assumes "region_prefixed_table s" and "has_region_prefix (col_gauge_id row)"
      and "save_metadata self row s = (Inr (), s')"
  shows "\<exists>meta'. read_metadata1h s' = Some meta' \<and> region_prefixed meta' \<and>
           col_gauge_id row \<in> set (map col_gauge_id meta')"
proof (cases "read_metadata1h s")
  case None
  with assms show ?thesis
    by (auto simp add: save_metadata_def Let_def write_metadata1h_def read_metadata1h_def
          region_prefixed_def
        split: option.splits)
next
  case (Some meta)
  with assms(1) have rp: "region_prefixed meta"
    by (simp add: region_prefixed_table_def)
  let ?kept = "filter (\<lambda>r. col_gauge_id r \<noteq> col_gauge_id row) meta @ [row]"
  have k: "region_prefixed ?kept"
    using rp assms(2) by (auto simp add: region_prefixed_def list_all_iff)
  then have sv: "sort_values_gauge_id ?kept = sort_key col_gauge_id ?kept"
    by (intro sort_values_no_na region_prefixed_no_na)
  have "region_prefixed (sort_key col_gauge_id ?kept)"
    using k by (simp add: region_prefixed_def list_all_iff)
  moreover have "region_prefixed (meta @ [row])"
    using rp assms(2) by (simp add: region_prefixed_def)
  ultimately show ?thesis
    using Some assms(3) sv
    by (auto simp add: save_metadata_def Let_def write_metadata1h_def read_metadata1h_def
        split: option.splits if_splits)
qed

lemma save_metadata_replace:
  assumes "read_metadata1h s = Some meta" and "region_prefixed meta"
      and "has_region_prefix (col_gauge_id row)"
      and "col_gauge_id row \<in> set (map col_gauge_id meta)"
  shows "fst (save_metadata self row s) = Inr () \<and>
         read_metadata1h (snd (save_metadata self row s)) =
           Some (sort_key col_gauge_id
                   (filter (\<lambda>r. col_gauge_id r \<noteq> col_gauge_id row) meta @ [row]))"
proof -
  let ?kept = "filter (\<lambda>r. col_gauge_id r \<noteq> col_gauge_id row) meta @ [row]"
  have "region_prefixed ?kept"
    using assms(2,3) by (auto simp add: region_prefixed_def list_all_iff)
  then have sv: "sort_values_gauge_id ?kept = sort_key col_gauge_id ?kept"
    by (intro sort_values_no_na region_prefixed_no_na)
  have "col_gauge_id row \<in> set (str_cells (map col_gauge_id meta))"
    using region_prefixed_member [OF assms(2,3)] assms(4) by simp
  with assms(1) sv show ?thesis
    by (auto simp add: save_metadata_def Let_def write_metadata1h_def read_metadata1h_def
        split: option.splits)
qed

text \<open>The half of the invariant that every path keeps, for gauge ids with a region
  prefix: a table with at most one row for each gauge id has at most one row for each
  gauge id after \<open>save_metadata\<close>.\<close>

lemma save_metadata_distinct:
  assumes "read_metadata1h s = Some meta" and "distinct (map col_gauge_id meta)"
      and "region_prefixed meta" and "has_region_prefix (col_gauge_id row)"
  shows "\<exists>meta'. read_metadata1h (snd (save_metadata self row s)) = Some meta' \<and>
           distinct (map col_gauge_id meta')"
proof (cases "col_gauge_id row \<in> set (map col_gauge_id meta)")
  case True
  have "distinct (map col_gauge_id
          (filter (\<lambda>r. col_gauge_id r \<noteq> col_gauge_id row) meta @ [row]))"
    using assms(2) by (auto simp add: distinct_map_filter)
  then have "distinct (map col_gauge_id
      (sort_key col_gauge_id (filter (\<lambda>r. col_gauge_id r \<noteq> col_gauge_id row) meta @ [row])))"
    by (simp add: distinct_map)
  with save_metadata_replace [OF assms(1,3,4) True, of self] show ?thesis by simp
next
  case False
  then have "col_gauge_id row \<notin> set (str_cells (map col_gauge_id meta))"
    using region_prefixed_member [OF assms(3,4)] by simp
  with assms False show ?thesis
    by (auto simp add: save_metadata_def Let_def write_metadata1h_def read_metadata1h_def
        split: option.splits)
qed

lemma str_cells_DE210000: "str_cells [''DE210000''] = [''DE210000'']"
  using plain_Object [of "''DE210000''" "[''DE210000'']"] DE_plain [of "''210000''"]
  by (simp add: str_cells_def plain_def)

text \<open>
  Claim C2: after every successful \<open>save_metadata\<close> the table of all stations has at
  most one row for each gauge id and is sorted by gauge id, also when the gauge id was
  not in the table. The code does not sort then: the new row is written at the end of
  the file. With the row of \<open>DE210000\<close> in the table, saving \<open>DE110000\<close> succeeds and
  leaves \<open>DE210000\<close> before \<open>DE110000\<close>.
\<close>

theorem save_metadata_append_unsorted:
  "read_metadata1h (metadata_store [isar]) = Some [isar]
   \<and> sorted (map col_gauge_id [isar])
   \<and> fst (save_metadata station_DE110000 neckar (metadata_store [isar])) = Inr ()
   \<and> read_metadata1h (snd (save_metadata station_DE110000 neckar (metadata_store [isar]))) =
       Some [isar, neckar]
   \<and> map col_gauge_id [isar, neckar] = [''DE210000'', ''DE110000'']
   \<and> \<not> sorted (map col_gauge_id [isar, neckar])"
  by (simp add: save_metadata_def metadata_store_def isar_def neckar_def named_row_def
        write_metadata1h_def read_metadata1h_def Let_def str_cells_DE210000)

text \<open>
  Claim C6: after two successful calls of \<open>save_metadata\<close> with the same gauge id, the
  table of all stations has exactly one row of this gauge id, the row of the second call,
  and is sorted by gauge id. The gauge ids are those of the specification, NUTS ids: the
  gauge id of the calls, and the gauge ids of the table before them, start with a region
  code. (A gauge id of digits only is read back from the table as a number, and is not
  found there.)
\<close>

theorem save_metadata_twice:
  assumes "save_metadata self1 row1 s = (Inr (), s1)"
      and "save_metadata self2 row2 s1 = (Inr (), s2)"
      and "col_gauge_id row1 = col_gauge_id row2"
      and "has_region_prefix (col_gauge_id row2)"
      and "region_prefixed_table s"
  shows "\<exists>meta. read_metadata1h s2 = Some meta
           \<and> filter (\<lambda>r. col_gauge_id r = col_gauge_id row2) meta = [row2]
           \<and> sorted (map col_gauge_id meta)"
proof -
  from save_metadata_region_prefixed [OF assms(5) _ assms(1)] assms(3,4) obtain meta1 where
    m1: "read_metadata1h s1 = Some meta1" "region_prefixed meta1"
        "col_gauge_id row2 \<in> set (map col_gauge_id meta1)"
    by auto
  let ?meta = "sort_key col_gauge_id
                 (filter (\<lambda>r. col_gauge_id r \<noteq> col_gauge_id row2) meta1 @ [row2])"
  from save_metadata_replace [OF m1(1,2) assms(4) m1(3), of self2] assms(2)
  have "read_metadata1h s2 = Some ?meta" by simp
  moreover have "filter (\<lambda>r. col_gauge_id r = col_gauge_id row2) ?meta = [row2]"
    by (simp add: filter_sort)
  moreover have "sorted (map col_gauge_id ?meta)"
    by (rule sorted_sort_key)
  ultimately show ?thesis by blast
qed

lemma first_save:
  "fst (save_metadata station_DE110000 neckar (metadata_store [isar])) = Inr ()"
  by (simp add: save_metadata_def metadata_store_def Let_def)

lemma second_save:
  "fst (save_metadata station_DE110000 rhein
          (snd (save_metadata station_DE110000 neckar (metadata_store [isar])))) = Inr ()"
  by (simp add: save_metadata_def metadata_store_def Let_def write_metadata1h_def)

lemma str_cells_isar_neckar:
  "str_cells [''DE210000'', ''DE110000''] = [''DE210000'', ''DE110000'']"
  using plain_Object [of "''DE210000''" "[''DE210000'', ''DE110000'']"]
        DE_plain [of "''210000''"] DE_plain [of "''110000''"]
  by (simp add: str_cells_def plain_def)

lemma table_after_second_save:
  "read_metadata1h (snd (save_metadata station_DE110000 rhein
          (snd (save_metadata station_DE110000 neckar (metadata_store [isar]))))) =
     Some [rhein, isar]"
  using DE_plain [of "''210000''"] DE_plain [of "''110000''"]
  by (simp add: save_metadata_def metadata_store_def Let_def write_metadata1h_def
        read_metadata1h_def isar_def neckar_def rhein_def named_row_def str_cells_DE210000
        str_cells_isar_neckar sort_values_gauge_id_def plain_def)

theorem save_metadata_twice_witness:
  "col_gauge_id neckar = col_gauge_id rhein \<and> neckar \<noteq> rhein
   \<and> has_region_prefix (col_gauge_id rhein)
   \<and> region_prefixed_table (metadata_store [isar])
   \<and> read_metadata1h (snd (save_metadata station_DE110000 rhein
          (snd (save_metadata station_DE110000 neckar (metadata_store [isar]))))) =
       Some [rhein, isar]
   \<and> filter (\<lambda>r. col_gauge_id r = col_gauge_id rhein) [rhein, isar] = [rhein]
   \<and> sorted (map col_gauge_id [rhein, isar])"
proof -
  have 1: "save_metadata station_DE110000 neckar (metadata_store [isar]) =
        (Inr (), snd (save_metadata station_DE110000 neckar (metadata_store [isar])))"
    using first_save by (simp add: prod_eq_iff)
  have 2: "save_metadata station_DE110000 rhein
          (snd (save_metadata station_DE110000 neckar (metadata_store [isar]))) =
        (Inr (), snd (save_metadata station_DE110000 rhein
          (snd (save_metadata station_DE110000 neckar (metadata_store [isar])))))"
    using second_save by (simp add: prod_eq_iff)
  have 3: "col_gauge_id neckar = col_gauge_id rhein"
    by (simp add: neckar_def rhein_def named_row_def)
  have 4: "neckar \<noteq> rhein"
    by (simp add: neckar_def rhein_def named_row_def)
  have 5: "has_region_prefix (col_gauge_id rhein)"
    by (simp add: rhein_def named_row_def has_region_prefix_def region_codes_simp startswith_def)
  have 6: "region_prefixed_table (metadata_store [isar])"
    by (simp add: region_prefixed_table_def region_prefixed_def read_metadata1h_def
          metadata_store_def isar_def named_row_def has_region_prefix_def region_codes_simp
          startswith_def)
  from save_metadata_twice [OF 1 2 3 5 6] 3 4 5 6 show ?thesis
    by (auto simp add: table_after_second_save)
qed

end
